theory Spec2Isabelle
  imports Complex_Main "HOL-Library.Word" "HOL-Library.Multiset"
begin

section \<open>tcmonitor-ebpf: the attach-and-monitor program of \<^verbatim>\<open>main.go\<close>\<close>

text \<open>
  The theory embeds the three functions of \<^verbatim>\<open>main.go\<close>: \<^verbatim>\<open>getFuncName\<close>,
  \<^verbatim>\<open>lookupAndPrintStats\<close> and \<^verbatim>\<open>main\<close>. What the Go code does to the outside world
  (lines written with \<^verbatim>\<open>fmt\<close> and \<^verbatim>\<open>log\<close>, kernel objects loaded, attached and closed)
  is a list of events in program order; what it reads from the outside world (the target
  program's info, the counter table, the clock, the signal context) is an explicit input.

  Two modelling conventions are fixed here and used throughout.
  \<^item> \<^verbatim>\<open>uint32\<close> and \<^verbatim>\<open>uint64\<close> are \<open>32 word\<close> and \<open>64 word\<close>: subtraction wraps.
  \<^item> \<^verbatim>\<open>float64\<close> is idealised as \<open>real\<close>: the conversion \<^verbatim>\<open>float64(x)\<close> and the
    division are exact, rounding is not modelled. A rate is the value handed to
    \<^verbatim>\<open>Printf\<close>, before \<^verbatim>\<open>%.2f\<close> formats it.
\<close>

subsection \<open>Machine types\<close>

type_synonym u32 = "32 word"
type_synonym u64 = "64 word"

subsection \<open>The key table (\<^verbatim>\<open>tcKeys\<close>, \<^verbatim>\<open>tcKeyOrder\<close>)\<close>

text \<open>
  \<^verbatim>\<open>tcKeys\<close> is a Go map literal. Its entries are listed in the order of the literal; the
  map itself is the partial function they denote, and reading a missing key gives the
  zero value, as a Go map index expression does.
\<close>

definition tcKeys_entries :: "(string \<times> u32) list" where
  "tcKeys_entries =
     [(''TC_ACT_OK'', 0),
      (''TC_ACT_RECLASSIFY'', 1),
      (''TC_ACT_SHOT'', 2),
      (''TC_ACT_PIPE'', 3),
      (''TC_ACT_STOLEN'', 4),
      (''TC_ACT_QUEUED'', 5),
      (''TC_ACT_REPEAT'', 6),
      (''TC_ACT_REDIRECT'', 7),
      (''TC_ACT_TRAP'', 8)]"

definition tcKeys :: "string \<rightharpoonup> u32" where
  "tcKeys = map_of tcKeys_entries"

definition tcKeyOrder :: "string list" where
  "tcKeyOrder =
     [''TC_ACT_OK'', ''TC_ACT_RECLASSIFY'', ''TC_ACT_SHOT'', ''TC_ACT_PIPE'',
      ''TC_ACT_STOLEN'', ''TC_ACT_QUEUED'', ''TC_ACT_REPEAT'', ''TC_ACT_REDIRECT'',
      ''TC_ACT_TRAP'']"

text \<open>\<^verbatim>\<open>keys[action]\<close> on a \<^verbatim>\<open>map[string]uint32\<close>: the zero value for a missing key.\<close>

definition keyOf :: "(string \<rightharpoonup> u32) \<Rightarrow> string \<Rightarrow> u32" where
  "keyOf keys action = (case keys action of Some k \<Rightarrow> k | None \<Rightarrow> 0)"

subsection \<open>\<^verbatim>\<open>getFuncName\<close>\<close>

text \<open>
  The part of \<^verbatim>\<open>cilium/ebpf\<close> the function reads. \<^verbatim>\<open>ProgramType\<close> is a \<^verbatim>\<open>uint32\<close> whose
  values are the kernel's \<^verbatim>\<open>BPF_PROG_TYPE_*\<close> numbers. \<^verbatim>\<open>Instruction.Symbol()\<close> is the
  empty string for an instruction that carries no symbol. A call that returns
  \<^verbatim>\<open>(value, error)\<close> is a sum with the error's text on the left.
\<close>

type_synonym ProgramType = u32

definition SchedCLS :: ProgramType where
  "SchedCLS = 3"

definition SchedACT :: ProgramType where
  "SchedACT = 4"

record Instruction =
  Symbol :: string

record ProgramInfo =
  Type :: ProgramType
  BTFID :: "nat option"
  Instructions :: "string + Instruction list"

record Program =
  Info :: "string + ProgramInfo"

text \<open>The five error returns of \<^verbatim>\<open>getFuncName\<close>, in source order.\<close>

datatype error =
    FailedToGetProgramInfo string
  | NotATCProgram
  | NoBTFID
  | FailedToGetInstructions string
  | NoEntryFunction

text \<open>The \<^verbatim>\<open>for _, insn := range insns\<close> loop with its fall-through error.\<close>

fun scanInsns :: "Instruction list \<Rightarrow> error + string" where
  "scanInsns [] = Inl NoEntryFunction"
| "scanInsns (insn # insns) =
     (if Symbol insn \<noteq> '''' then Inr (Symbol insn) else scanInsns insns)"

definition getFuncName :: "Program \<Rightarrow> error + string" where
  "getFuncName prog =
     (case Info prog of
        Inl err \<Rightarrow> Inl (FailedToGetProgramInfo err)
      | Inr info \<Rightarrow>
          if Type info \<noteq> SchedCLS \<and> Type info \<noteq> SchedACT then Inl NotATCProgram
          else case BTFID info of
            None \<Rightarrow> Inl NoBTFID
          | Some _ \<Rightarrow>
              (case Instructions info of
                 Inl err \<Rightarrow> Inl (FailedToGetInstructions err)
               | Inr insns \<Rightarrow> scanInsns insns))"

subsection \<open>Time\<close>

text \<open>
  A \<^verbatim>\<open>time.Time\<close> is its clock reading in nanoseconds and a \<^verbatim>\<open>time.Duration\<close> is a
  count of nanoseconds. \<^verbatim>\<open>Time.Sub\<close> saturates at the bounds of \<^verbatim>\<open>int64\<close>;
  \<^verbatim>\<open>Duration.Seconds\<close> is the duration as a floating-point number of seconds.
\<close>

type_synonym Time = int
type_synonym Duration = int

definition maxDuration :: Duration where
  "maxDuration = 2 ^ 63 - 1"

definition minDuration :: Duration where
  "minDuration = - (2 ^ 63)"

definition Sub :: "Time \<Rightarrow> Time \<Rightarrow> Duration" where
  "Sub t u = (if t - u > maxDuration then maxDuration
              else if t - u < minDuration then minDuration
              else t - u)"

definition Seconds :: "Duration \<Rightarrow> real" where
  "Seconds d = real_of_int d / 1000000000"

subsection \<open>Events\<close>

text \<open>
  Every effect of the program, in the order it happens. The arguments of a printing
  event are the arguments of the Go call, not the formatted text.
\<close>

datatype fatal =
    NoProgramID
  | RemoveMemlockFailed string
  | LoadSpecFailed string
  | LoadProgramFailed int string
  | GetFuncNameFailed error
  | LoadObjectFailedVerifier string string
  | LoadObjectFailed string
  | AttachFailed string

datatype event =
    PrintHeader
  | PrintLine string u64 real
  | LogLookupError string string
  | LogFatal fatal
  | PrintTracing int
  | PrintExiting
  | ClearScreen
  | LoadAndAssign string
  | AttachTracing
  | ProgClose
  | ObjClose
  | LinkClose
  | TickerStop
  | SignalStop

subsection \<open>\<^verbatim>\<open>lookupAndPrintStats\<close>\<close>

text \<open>
  \<^verbatim>\<open>prevValues[action]\<close> on a \<^verbatim>\<open>map[string]uint64\<close>: zero for an action never stored.
\<close>

definition prevOf :: "(string \<rightharpoonup> u64) \<Rightarrow> string \<Rightarrow> u64" where
  "prevOf prevValues action = (case prevValues action of Some v \<Rightarrow> v | None \<Rightarrow> 0)"

text \<open>
  The body of \<^verbatim>\<open>for _, action := range tcKeyOrder\<close>, by recursion on the actions left.
  \<open>lookup\<close> is \<^verbatim>\<open>ebpfMap.Lookup\<close> on this tick: the error's text or the value read.
  The result is the events of the iterations and \<^verbatim>\<open>prevValues\<close> after them.
\<close>

fun statsLoop ::
  "(string \<rightharpoonup> u32) \<Rightarrow> (u32 \<Rightarrow> string + u64) \<Rightarrow> real \<Rightarrow> string list \<Rightarrow>
   (string \<rightharpoonup> u64) \<Rightarrow> event list \<times> (string \<rightharpoonup> u64)" where
  "statsLoop keys lookup deltaTime [] prevValues = ([], prevValues)"
| "statsLoop keys lookup deltaTime (action # actions) prevValues =
     (case lookup (keyOf keys action) of
        Inl err \<Rightarrow>
          (case statsLoop keys lookup deltaTime actions prevValues of
             (evs, prevValues') \<Rightarrow> (LogLookupError action err # evs, prevValues'))
      | Inr value \<Rightarrow>
          (let prev = prevOf prevValues action;
               rate = real (unat (value - prev)) / deltaTime
           in case statsLoop keys lookup deltaTime actions (prevValues(action \<mapsto> value)) of
                (evs, prevValues') \<Rightarrow> (PrintLine action value rate # evs, prevValues')))"

text \<open>
  The function with the key table passed in, and the function of the source, which
  reads the package-level \<^verbatim>\<open>tcKeys\<close>. The result is the events, \<^verbatim>\<open>prevValues\<close> and
  \<^verbatim>\<open>*prevTime\<close> on return.
\<close>

definition lookupAndPrintStatsWith ::
  "(string \<rightharpoonup> u32) \<Rightarrow> (u32 \<Rightarrow> string + u64) \<Rightarrow> (string \<rightharpoonup> u64) \<Rightarrow> Time \<Rightarrow> Time \<Rightarrow>
   event list \<times> (string \<rightharpoonup> u64) \<times> Time" where
  "lookupAndPrintStatsWith keys lookup prevValues prevTime now =
     (let deltaTime = Seconds (Sub now prevTime) in
      if deltaTime = 0 then ([PrintHeader], prevValues, prevTime)
      else case statsLoop keys lookup deltaTime tcKeyOrder prevValues of
             (evs, prevValues') \<Rightarrow> (PrintHeader # evs, prevValues', now))"

definition lookupAndPrintStats ::
  "(u32 \<Rightarrow> string + u64) \<Rightarrow> (string \<rightharpoonup> u64) \<Rightarrow> Time \<Rightarrow> Time \<Rightarrow>
   event list \<times> (string \<rightharpoonup> u64) \<times> Time" where
  "lookupAndPrintStats = lookupAndPrintStatsWith tcKeys"

text \<open>
  The snapshot a tick displays: the \<^verbatim>\<open>Printf\<close> lines among the events, as
  (action, count, rate) in the order printed.
\<close>

fun snapshot :: "event list \<Rightarrow> (string \<times> u64 \<times> real) list" where
  "snapshot [] = []"
| "snapshot (PrintLine action value rate # evs) = (action, value, rate) # snapshot evs"
| "snapshot (_ # evs) = snapshot evs"

text \<open>
  The entry a tick displays for an action: the count and the rate of its line, or
  nothing when no line is printed for it.
\<close>

definition displayed :: "event list \<Rightarrow> string \<Rightarrow> (u64 \<times> real) option" where
  "displayed evs action = map_of (snapshot evs) action"

subsection \<open>\<^verbatim>\<open>main\<close>\<close>

text \<open>
  What \<^verbatim>\<open>main\<close> reads from outside: the flag, the outcome of each fallible call (the
  error's text on failure), the clock at \<^verbatim>\<open>prevTime := time.Now()\<close>, and what each
  \<^verbatim>\<open>select\<close> of the loop receives, in order: the context's \<^verbatim>\<open>Done\<close>, or a tick together
  with the clock and the counter table as read on that tick. \<^verbatim>\<open>LoadAndAssign\<close> is
  given the entry symbol written to \<^verbatim>\<open>AttachTo\<close> before it.
\<close>

datatype loadError = VerifierError string string | OtherLoadError string

datatype select = Done | Tick Time "u32 \<Rightarrow> string + u64"

record Env =
  tcProgID :: int
  memlockResult :: "string option"
  specResult :: "string option"
  programResult :: "string + Program"
  loadResult :: "string \<Rightarrow> loadError option"
  attachResult :: "string option"
  startTime :: Time
  selects :: "select list"

text \<open>
  How a run stands after the events listed: the process has exited with a status, or the
  loop is waiting in \<^verbatim>\<open>select\<close> with nothing more received.
\<close>

datatype status = Exited nat | Running

text \<open>
  \<^verbatim>\<open>log.Fatal\<close> and \<^verbatim>\<open>log.Fatalf\<close> write the message and call \<^verbatim>\<open>os.Exit(1)\<close>: the process
  ends there and no deferred call runs. \<open>evs\<close> are the events of the statement that
  failed.
\<close>

definition logFatal :: "event list \<Rightarrow> fatal \<Rightarrow> event list \<times> status" where
  "logFatal evs f = (evs @ [LogFatal f], Exited 1)"

text \<open>
  The \<^verbatim>\<open>for { select { ... } }\<close> loop, by recursion on what the selects receive.
  \<open>defers\<close> is the stack of deferred calls, the last deferred first: \<^verbatim>\<open>return\<close> runs
  them in that order and the process exits with status 0.
\<close>

fun pollLoop ::
  "event list \<Rightarrow> select list \<Rightarrow> (string \<rightharpoonup> u64) \<Rightarrow> Time \<Rightarrow> event list \<times> status" where
  "pollLoop defers [] prevValues prevTime = ([], Running)"
| "pollLoop defers (Done # _) prevValues prevTime = (PrintExiting # defers, Exited 0)"
| "pollLoop defers (Tick now lookup # rest) prevValues prevTime =
     (case lookupAndPrintStats lookup prevValues prevTime now of
        (evs, prevValues', prevTime') \<Rightarrow>
          (case pollLoop defers rest prevValues' prevTime' of
             (evs', st) \<Rightarrow> (ClearScreen # evs @ evs', st)))"

definition main :: "Env \<Rightarrow> event list \<times> status" where
  "main env =
     (if tcProgID env = 0 then logFatal [] NoProgramID
      else
        \<comment> \<open>\<^verbatim>\<open>defer stop()\<close>\<close>
        case memlockResult env of
          Some err \<Rightarrow> logFatal [] (RemoveMemlockFailed err)
        | None \<Rightarrow>
        (case specResult env of
           Some err \<Rightarrow> logFatal [] (LoadSpecFailed err)
         | None \<Rightarrow>
        (case programResult env of
           Inl err \<Rightarrow> logFatal [] (LoadProgramFailed (tcProgID env) err)
         | Inr tcProg \<Rightarrow>
        \<comment> \<open>\<^verbatim>\<open>defer tcProg.Close()\<close>\<close>
        (case getFuncName tcProg of
           Inl err \<Rightarrow> logFatal [] (GetFuncNameFailed err)
         | Inr tcFuncName \<Rightarrow>
        (case loadResult env tcFuncName of
           Some (VerifierError err ve) \<Rightarrow>
             logFatal [LoadAndAssign tcFuncName] (LoadObjectFailedVerifier err ve)
         | Some (OtherLoadError err) \<Rightarrow>
             logFatal [LoadAndAssign tcFuncName] (LoadObjectFailed err)
         | None \<Rightarrow>
        \<comment> \<open>\<^verbatim>\<open>defer obj.Close()\<close>\<close>
        (case attachResult env of
           Some err \<Rightarrow> logFatal [LoadAndAssign tcFuncName, AttachTracing] (AttachFailed err)
         | None \<Rightarrow>
        \<comment> \<open>\<^verbatim>\<open>defer tcfexit.Close()\<close>, \<^verbatim>\<open>defer ticker.Stop()\<close>\<close>
        (case pollLoop [TickerStop, LinkClose, ObjClose, ProgClose, SignalStop]
                (selects env) Map.empty (startTime env) of
           (evs, st) \<Rightarrow>
             ([LoadAndAssign tcFuncName, AttachTracing, PrintTracing (tcProgID env)] @ evs,
              st))))))))"

subsection \<open>Sample inputs\<close>

text \<open>
  A classifier whose second instruction carries the first symbol, and a socket filter
  (program type 1) with neither type metadata nor any symbol.
\<close>

definition sampleInsns :: "Instruction list" where
  "sampleInsns =
     [\<lparr>Symbol = ''''\<rparr>, \<lparr>Symbol = ''cls_foo''\<rparr>, \<lparr>Symbol = ''''\<rparr>, \<lparr>Symbol = ''helper''\<rparr>]"

definition sampleClassifier :: Program where
  "sampleClassifier =
     \<lparr>Info = Inr \<lparr>Type = SchedCLS, BTFID = Some 3, Instructions = Inr sampleInsns\<rparr>\<rparr>"

definition sampleFilter :: Program where
  "sampleFilter = \<lparr>Info = Inr \<lparr>Type = 1, BTFID = None, Instructions = Inr []\<rparr>\<rparr>"

text \<open>
  A counter table on one tick: the lookup of key 7 (redirect) fails, key 0 (accept)
  reads 14, every other key reads 0. And the values stored by an earlier tick.
\<close>

definition sampleLookup :: "u32 \<Rightarrow> string + u64" where
  "sampleLookup k =
     (if k = 7 then Inl ''key does not exist'' else if k = 0 then Inr 14 else Inr 0)"

definition samplePrev :: "string \<rightharpoonup> u64" where
  "samplePrev = [''TC_ACT_OK'' \<mapsto> 10, ''TC_ACT_REDIRECT'' \<mapsto> 5]"

text \<open>
  Three calls of \<^verbatim>\<open>lookupAndPrintStats\<close>. The first, one second after the start, reads
  every key (accept 10, redirect 5, the others 0). The second follows it two seconds
  later with the table above, whose redirect lookup fails. The third follows the first
  with the same clock reading, so no time has elapsed.
\<close>

definition earlierLookup :: "u32 \<Rightarrow> string + u64" where
  "earlierLookup k = (if k = 0 then Inr 10 else if k = 7 then Inr 5 else Inr 0)"

definition firstTick :: "event list \<times> (string \<rightharpoonup> u64) \<times> Time" where
  "firstTick = lookupAndPrintStats earlierLookup Map.empty 0 1000000000"

definition secondTick :: "event list \<times> (string \<rightharpoonup> u64) \<times> Time" where
  "secondTick =
     lookupAndPrintStats sampleLookup (fst (snd firstTick)) (snd (snd firstTick)) 3000000000"

definition zeroTick :: "event list \<times> (string \<rightharpoonup> u64) \<times> Time" where
  "zeroTick =
     lookupAndPrintStats sampleLookup (fst (snd firstTick)) (snd (snd firstTick))
       (snd (snd firstTick))"

text \<open>A run of \<^verbatim>\<open>main\<close> whose startup succeeds, with one tick and then cancellation.\<close>

definition sampleEnv :: Env where
  "sampleEnv =
     \<lparr>tcProgID = 55, memlockResult = None, specResult = None,
      programResult = Inr sampleClassifier, loadResult = (\<lambda>_. None),
      attachResult = None, startTime = 0,
      selects = [Tick 1000000000 sampleLookup, Done]\<rparr>"


definition filterEnv :: Env where
  "filterEnv = sampleEnv\<lparr>programResult := Inr sampleFilter\<rparr>"

section \<open>Properties\<close>

subsection \<open>The instruction scan\<close>

lemma scanInsns_skip:
  "\<forall>i\<in>set pre. Symbol i = '''' \<Longrightarrow> scanInsns (pre @ rest) = scanInsns rest"
  by (induction pre) simp_all

lemma scanInsns_Inl:
  "scanInsns insns = Inl e \<longleftrightarrow> e = NoEntryFunction \<and> (\<forall>i\<in>set insns. Symbol i = '''')"
  by (induction insns) auto

lemma getFuncName_scan:
  assumes "Info prog = Inr info"
    and "Type info = SchedCLS \<or> Type info = SchedACT"
    and "BTFID info = Some b"
    and "Instructions info = Inr insns"
  shows "getFuncName prog = scanInsns insns"
  using assms by (auto simp: getFuncName_def)

lemma getFuncName_not_tc:
  assumes "Info prog = Inr info"
    and "Type info \<noteq> SchedCLS"
    and "Type info \<noteq> SchedACT"
  shows "getFuncName prog = Inl NotATCProgram"
  using assms by (simp add: getFuncName_def)

text \<open>
  Claim C6. For a program of a TC kind that carries a BTF id and whose instructions
  can be read, \<^verbatim>\<open>getFuncName\<close> returns the symbol of the first instruction, in stream
  order, that has one: whenever the stream splits into symbol-free instructions, an
  instruction with a symbol and a rest, the result is that instruction's symbol, and such
  a split exists as soon as some instruction has a symbol. The result is the
  no-entry-function error exactly when no instruction has a symbol. The result is a
  function of the stream, so it is the same on every call.
\<close>

theorem getFuncName_first_symbol:
  assumes "Info prog = Inr info"
    and "Type info = SchedCLS \<or> Type info = SchedACT"
    and "BTFID info = Some b"
    and "Instructions info = Inr insns"
  shows "(getFuncName prog = Inl NoEntryFunction \<longleftrightarrow> (\<forall>i\<in>set insns. Symbol i = ''''))
       \<and> (\<forall>pre x post. insns = pre @ x # post \<and> (\<forall>i\<in>set pre. Symbol i = '''')
              \<and> Symbol x \<noteq> '''' \<longrightarrow> getFuncName prog = Inr (Symbol x))
       \<and> ((\<exists>i\<in>set insns. Symbol i \<noteq> '''') \<longrightarrow>
            (\<exists>pre x post. insns = pre @ x # post \<and> (\<forall>i\<in>set pre. Symbol i = '''')
               \<and> Symbol x \<noteq> '''' \<and> getFuncName prog = Inr (Symbol x)))"
proof -
  have scan: "getFuncName prog = scanInsns insns"
    using assms by (rule getFuncName_scan)
  have none: "getFuncName prog = Inl NoEntryFunction \<longleftrightarrow> (\<forall>i\<in>set insns. Symbol i = '''')"
    by (simp add: scan scanInsns_Inl)
  have first: "getFuncName prog = Inr (Symbol x)"
    if "insns = pre @ x # post" "\<forall>i\<in>set pre. Symbol i = ''''" "Symbol x \<noteq> ''''"
    for pre x post
    using that by (simp add: scan scanInsns_skip)
  have ex: "\<exists>pre x post. insns = pre @ x # post \<and> (\<forall>i\<in>set pre. Symbol i = '''')
               \<and> Symbol x \<noteq> '''' \<and> getFuncName prog = Inr (Symbol x)"
    if "\<exists>i\<in>set insns. Symbol i \<noteq> ''''"
  proof -
    from that obtain pre x post where
      split: "insns = pre @ x # post" "Symbol x \<noteq> ''''" "\<forall>i\<in>set pre. \<not> Symbol i \<noteq> ''''"
      using split_list_first_prop [of insns "\<lambda>i. Symbol i \<noteq> ''''"] by blast
    then have "\<forall>i\<in>set pre. Symbol i = ''''" by simp
    with split first show ?thesis by blast
  qed
  from none first ex show ?thesis by blast
qed

theorem getFuncName_first_symbol_witness:
  "getFuncName sampleClassifier = Inr ''cls_foo''
   \<and> getFuncName \<lparr>Info = Inr \<lparr>Type = SchedACT, BTFID = Some 0, Instructions = Inr [\<lparr>Symbol = ''''\<rparr>]\<rparr>\<rparr>
       = Inl NoEntryFunction"
proof -
  let ?info = "\<lparr>Type = SchedCLS, BTFID = Some 3, Instructions = Inr sampleInsns\<rparr>"
  have a: "Info sampleClassifier = Inr ?info" by (simp add: sampleClassifier_def)
  have b: "Type ?info = SchedCLS \<or> Type ?info = SchedACT" by simp
  have c: "BTFID ?info = Some 3" by simp
  have d: "Instructions ?info = Inr sampleInsns" by simp
  have e: "sampleInsns =
             [\<lparr>Symbol = ''''\<rparr>] @ \<lparr>Symbol = ''cls_foo''\<rparr> # [\<lparr>Symbol = ''''\<rparr>, \<lparr>Symbol = ''helper''\<rparr>]
           \<and> (\<forall>i\<in>set [\<lparr>Symbol = ''''\<rparr>]. Symbol i = '''')
           \<and> Symbol \<lparr>Symbol = ''cls_foo''\<rparr> \<noteq> ''''"
    by (simp add: sampleInsns_def)
  from getFuncName_first_symbol [OF a b c d] e
  have "getFuncName sampleClassifier = Inr (Symbol \<lparr>Symbol = ''cls_foo''\<rparr>)" by blast
  then have first: "getFuncName sampleClassifier = Inr ''cls_foo''" by simp
  let ?info' = "\<lparr>Type = SchedACT, BTFID = Some 0, Instructions = Inr [\<lparr>Symbol = ''''\<rparr>]\<rparr>"
  have a': "Info \<lparr>Info = Inr ?info'\<rparr> = Inr ?info'" by simp
  have b': "Type ?info' = SchedCLS \<or> Type ?info' = SchedACT" by simp
  have c': "BTFID ?info' = Some 0" by simp
  have d': "Instructions ?info' = Inr [\<lparr>Symbol = ''''\<rparr>]" by simp
  have e': "\<forall>i\<in>set [\<lparr>Symbol = ''''\<rparr>]. Symbol i = ''''" by simp
  from getFuncName_first_symbol [OF a' b' c' d'] e'
  have "getFuncName \<lparr>Info = Inr ?info'\<rparr> = Inl NoEntryFunction" by blast
  with first show ?thesis by simp
qed

text \<open>
  Claim C9. The kind check comes before the BTF check and the instruction scan: for a
  program whose info can be read and whose type is neither \<^verbatim>\<open>SchedCLS\<close> nor \<^verbatim>\<open>SchedACT\<close>,
  \<^verbatim>\<open>getFuncName\<close> returns the not-a-TC-program error whatever its BTF id and its
  instructions are, so never the missing-BTF, the instructions or the no-entry-function
  error.
\<close>

theorem getFuncName_kind_check_first:
  assumes "Info prog = Inr info"
    and "Type info \<noteq> SchedCLS"
    and "Type info \<noteq> SchedACT"
  shows "getFuncName prog = Inl NotATCProgram
       \<and> getFuncName prog \<noteq> Inl NoBTFID
       \<and> getFuncName prog \<noteq> Inl NoEntryFunction
       \<and> (\<forall>err. getFuncName prog \<noteq> Inl (FailedToGetInstructions err))"
  using assms by (simp add: getFuncName_def)

theorem getFuncName_kind_check_first_witness:
  "BTFID \<lparr>Type = 1, BTFID = None, Instructions = Inr []\<rparr> = None
   \<and> getFuncName sampleFilter = Inl NotATCProgram"
proof -
  let ?info = "\<lparr>Type = 1, BTFID = None, Instructions = Inr []\<rparr>"
  have a: "Info sampleFilter = Inr ?info" by (simp add: sampleFilter_def)
  have b: "Type ?info \<noteq> SchedCLS" by (simp add: SchedCLS_def)
  have c: "Type ?info \<noteq> SchedACT" by (simp add: SchedACT_def)
  from getFuncName_kind_check_first [OF a b c] show ?thesis by simp
qed

subsection \<open>The clock\<close>

lemma Seconds_eq_0: "Seconds d = 0 \<longleftrightarrow> d = 0"
  by (simp add: Seconds_def)

lemma Seconds_pos: "0 < Seconds d \<longleftrightarrow> 0 < d"
  by (simp add: Seconds_def)

lemma Sub_eq_0: "Sub now prevTime = 0 \<longleftrightarrow> now = prevTime"
  by (simp add: Sub_def maxDuration_def minDuration_def)

subsection \<open>The key table\<close>

lemma distinct_tcKeyOrder: "distinct tcKeyOrder"
  by (simp add: tcKeyOrder_def)

lemma keys_tcKeyOrder: "map (keyOf tcKeys) tcKeyOrder = [0, 1, 2, 3, 4, 5, 6, 7, 8]"
  by (simp add: tcKeyOrder_def tcKeys_def tcKeys_entries_def keyOf_def)

lemma distinct_tcKeys_entries: "distinct (map fst tcKeys_entries)"
  by (simp add: tcKeys_entries_def)

lemma map_of_reordered:
  assumes "distinct (map fst xs)" and "mset ys = mset xs"
  shows "map_of ys = map_of xs"
proof -
  have "mset (map fst ys) = mset (map fst xs)"
    using assms(2) by simp
  then have "distinct (map fst ys)"
    using assms(1) mset_eq_imp_distinct_iff by blast
  moreover have "set ys = set xs"
    using assms(2) by (rule mset_eq_setD)
  ultimately show ?thesis
    using assms(1) by (simp add: map_of_inject_set)
qed

subsection \<open>Unsigned subtraction\<close>




subsection \<open>The loop over the actions\<close>

lemma statsLoop_names:
  "map fst (snapshot (fst (statsLoop keys lk dt as pv))) =
     filter (\<lambda>a. \<not> isl (lk (keyOf keys a))) as"
  by (induction as arbitrary: pv) (auto split: sum.splits simp: Let_def case_prod_beta)

lemma statsLoop_entry:
  "distinct as \<Longrightarrow>
   map_of (snapshot (fst (statsLoop keys lk dt as pv))) a =
     (if a \<in> set as then
        (case lk (keyOf keys a) of
           Inl err \<Rightarrow> None
         | Inr v \<Rightarrow> Some (v, real (unat (v - prevOf pv a)) / dt))
      else None)"
proof (induction as arbitrary: pv)
  case Nil
  then show ?case by simp
next
  case (Cons x xs)
  show ?case
  proof (cases "lk (keyOf keys x)")
    case (Inl err)
    with Cons show ?thesis
      by (auto split: sum.splits simp: case_prod_beta)
  next
    case (Inr v)
    with Cons show ?thesis
      by (auto split: sum.splits simp: Let_def prevOf_def case_prod_beta)
  qed
qed

lemma statsLoop_prev:
  "snd (statsLoop keys lk dt as pv) a =
     (if a \<in> set as then
        (case lk (keyOf keys a) of Inl err \<Rightarrow> pv a | Inr v \<Rightarrow> Some v)
      else pv a)"
  by (induction as arbitrary: pv) (auto split: sum.splits simp: Let_def case_prod_beta)

lemma statsLoop_logged:
  "LogLookupError a err \<in> set (fst (statsLoop keys lk dt as pv)) \<longleftrightarrow>
     a \<in> set as \<and> lk (keyOf keys a) = Inl err"
  by (induction as arbitrary: pv) (auto split: sum.splits simp: Let_def case_prod_beta)

lemma statsLoop_no_fatal:
  "LogFatal f \<notin> set (fst (statsLoop keys lk dt as pv))"
  by (induction as arbitrary: pv) (auto split: sum.splits simp: Let_def case_prod_beta)

subsection \<open>One call of \<^verbatim>\<open>lookupAndPrintStats\<close>\<close>

lemma tick_nonzero:
  "Seconds (Sub now pt) \<noteq> 0 \<Longrightarrow>
   lookupAndPrintStats lk pv pt now =
     (PrintHeader # fst (statsLoop tcKeys lk (Seconds (Sub now pt)) tcKeyOrder pv),
      snd (statsLoop tcKeys lk (Seconds (Sub now pt)) tcKeyOrder pv), now)"
  by (simp add: lookupAndPrintStats_def lookupAndPrintStatsWith_def Let_def case_prod_beta)

lemma tick_zero:
  "Seconds (Sub now pt) = 0 \<Longrightarrow> lookupAndPrintStats lk pv pt now = ([PrintHeader], pv, pt)"
  by (simp add: lookupAndPrintStats_def lookupAndPrintStatsWith_def)

lemma tick_displayed:
  assumes "Seconds (Sub now pt) \<noteq> 0"
  shows "displayed (fst (lookupAndPrintStats lk pv pt now)) a =
     (if a \<in> set tcKeyOrder then
        (case lk (keyOf tcKeys a) of
           Inl err \<Rightarrow> None
         | Inr v \<Rightarrow> Some (v, real (unat (v - prevOf pv a)) / Seconds (Sub now pt)))
      else None)"
  using assms
  by (simp add: tick_nonzero displayed_def statsLoop_entry [OF distinct_tcKeyOrder])

lemma tick_prev:
  assumes "Seconds (Sub now pt) \<noteq> 0"
  shows "fst (snd (lookupAndPrintStats lk pv pt now)) a =
     (if a \<in> set tcKeyOrder then
        (case lk (keyOf tcKeys a) of Inl err \<Rightarrow> pv a | Inr v \<Rightarrow> Some v)
      else pv a)"
  using assms by (simp add: tick_nonzero statsLoop_prev)

lemma tick_names:
  "map fst (snapshot (fst (lookupAndPrintStats lk pv pt now))) =
     (if Seconds (Sub now pt) = 0 then []
      else filter (\<lambda>a. \<not> isl (lk (keyOf tcKeys a))) tcKeyOrder)"
  by (simp add: tick_nonzero tick_zero statsLoop_names)

text \<open>Unfolding a call on concrete inputs.\<close>

lemmas tick_eval =
  lookupAndPrintStats_def lookupAndPrintStatsWith_def Seconds_def Sub_def maxDuration_def
  minDuration_def tcKeyOrder_def tcKeys_def tcKeys_entries_def keyOf_def prevOf_def





subsection \<open>A tick inside the poll loop\<close>

lemma pollLoop_tick:
  "pollLoop defers (Tick now lk # rest) pv pt =
     (ClearScreen # fst (lookupAndPrintStats lk pv pt now)
        @ fst (pollLoop defers rest (fst (snd (lookupAndPrintStats lk pv pt now)))
                 (snd (snd (lookupAndPrintStats lk pv pt now)))),
      snd (pollLoop defers rest (fst (snd (lookupAndPrintStats lk pv pt now)))
             (snd (snd (lookupAndPrintStats lk pv pt now)))))"
  by (simp add: case_prod_beta)

lemma tick_no_fatal: "LogFatal f \<notin> set (fst (lookupAndPrintStats lk pv pt now))"
  by (cases "Seconds (Sub now pt) = 0") (simp_all add: tick_zero tick_nonzero statsLoop_no_fatal)

lemma tick_logged:
  assumes "Seconds (Sub now pt) \<noteq> 0"
  shows "LogLookupError a err \<in> set (fst (lookupAndPrintStats lk pv pt now)) \<longleftrightarrow>
     a \<in> set tcKeyOrder \<and> lk (keyOf tcKeys a) = Inl err"
  using assms by (simp add: tick_nonzero statsLoop_logged)

text \<open>
  Claim C3, as the code has it. On a call with non-zero elapsed time where the lookup
  for an action of \<^verbatim>\<open>tcKeyOrder\<close> fails: the failure is logged and nothing fatal is
  logged; no line is printed for that action on this tick, and the count stored for it
  stays as it was; every action whose lookup succeeds has its line with the count read
  and the rate, and that count is stored; and the poll loop goes on with the next
  \<^verbatim>\<open>select\<close>, its status being that of the rest of the run.
\<close>

theorem lookup_failure_skips_line:
  assumes "action \<in> set tcKeyOrder"
    and "Seconds (Sub now prevTime) \<noteq> 0"
    and "lookup (keyOf tcKeys action) = Inl err"
  shows "let r = lookupAndPrintStats lookup prevValues prevTime now in
           LogLookupError action err \<in> set (fst r)
         \<and> (\<forall>f. LogFatal f \<notin> set (fst r))
         \<and> displayed (fst r) action = None
         \<and> fst (snd r) action = prevValues action
         \<and> (\<forall>other v. other \<in> set tcKeyOrder \<and> lookup (keyOf tcKeys other) = Inr v \<longrightarrow>
               displayed (fst r) other =
                 Some (v, real (unat (v - prevOf prevValues other)) / Seconds (Sub now prevTime))
               \<and> fst (snd r) other = Some v)
         \<and> pollLoop defers (Tick now lookup # rest) prevValues prevTime =
             (ClearScreen # fst r @ fst (pollLoop defers rest (fst (snd r)) now),
              snd (pollLoop defers rest (fst (snd r)) now))"
proof -
  let ?r = "lookupAndPrintStats lookup prevValues prevTime now"
  have logged: "LogLookupError action err \<in> set (fst ?r)"
    using assms(1,3) by (simp add: tick_logged [OF assms(2)])
  have no_fatal: "\<forall>f. LogFatal f \<notin> set (fst ?r)"
    by (simp add: tick_no_fatal)
  have absent: "displayed (fst ?r) action = None"
    using assms(1,3) by (simp add: tick_displayed [OF assms(2)])
  have kept: "fst (snd ?r) action = prevValues action"
    using assms(1,3) by (simp add: tick_prev [OF assms(2)])
  have others: "\<forall>other v. other \<in> set tcKeyOrder \<and> lookup (keyOf tcKeys other) = Inr v \<longrightarrow>
               displayed (fst ?r) other =
                 Some (v, real (unat (v - prevOf prevValues other)) / Seconds (Sub now prevTime))
               \<and> fst (snd ?r) other = Some v"
    by (simp add: tick_displayed [OF assms(2)] tick_prev [OF assms(2)])
  have now: "snd (snd ?r) = now"
    by (simp add: tick_nonzero [OF assms(2)])
  have continues: "pollLoop defers (Tick now lookup # rest) prevValues prevTime =
             (ClearScreen # fst ?r @ fst (pollLoop defers rest (fst (snd ?r)) now),
              snd (pollLoop defers rest (fst (snd ?r)) now))"
    by (simp only: pollLoop_tick now)
  from logged no_fatal absent kept others continues show ?thesis
    unfolding Let_def by (intro conjI)
qed

theorem lookup_failure_skips_line_witness:
  "LogLookupError ''TC_ACT_REDIRECT'' ''key does not exist''
      \<in> set (fst (lookupAndPrintStats sampleLookup samplePrev 0 2000000000))
   \<and> displayed (fst (lookupAndPrintStats sampleLookup samplePrev 0 2000000000)) ''TC_ACT_REDIRECT''
      = None
   \<and> fst (snd (lookupAndPrintStats sampleLookup samplePrev 0 2000000000)) ''TC_ACT_REDIRECT''
      = Some 5
   \<and> displayed (fst (lookupAndPrintStats sampleLookup samplePrev 0 2000000000)) ''TC_ACT_OK''
      = Some (14, 2)
   \<and> snd (pollLoop [] [Tick 2000000000 sampleLookup, Done] samplePrev 0) = Exited 0"
proof -
  have a: "''TC_ACT_REDIRECT'' \<in> set tcKeyOrder"
    by (simp add: tcKeyOrder_def)
  have b: "Seconds (Sub 2000000000 0) \<noteq> 0"
    by (simp add: Seconds_def Sub_def maxDuration_def minDuration_def)
  have c: "sampleLookup (keyOf tcKeys ''TC_ACT_REDIRECT'') = Inl ''key does not exist''"
    by (simp add: sampleLookup_def keyOf_def tcKeys_def tcKeys_entries_def)
  have d: "''TC_ACT_OK'' \<in> set tcKeyOrder \<and> sampleLookup (keyOf tcKeys ''TC_ACT_OK'') = Inr 14"
    by (simp add: tcKeyOrder_def sampleLookup_def keyOf_def tcKeys_def tcKeys_entries_def)
  have e: "prevOf samplePrev ''TC_ACT_OK'' = 10" "samplePrev ''TC_ACT_REDIRECT'' = Some 5"
    by (simp_all add: prevOf_def samplePrev_def)
  have f: "Seconds (Sub 2000000000 0) = 2"
    by (simp add: Seconds_def Sub_def maxDuration_def minDuration_def)
  note inst = lookup_failure_skips_line
    [where lookup = sampleLookup and prevValues = samplePrev and defers = "[]" and rest = "[Done]",
     OF a b c, unfolded Let_def]
  from inst have "LogLookupError ''TC_ACT_REDIRECT'' ''key does not exist''
      \<in> set (fst (lookupAndPrintStats sampleLookup samplePrev 0 2000000000))"
    by (rule conjunct1)
  moreover from inst
  have "displayed (fst (lookupAndPrintStats sampleLookup samplePrev 0 2000000000)) ''TC_ACT_REDIRECT''
      = None"
    by blast
  moreover from inst e(2)
  have "fst (snd (lookupAndPrintStats sampleLookup samplePrev 0 2000000000)) ''TC_ACT_REDIRECT''
      = Some 5"
    by simp
  moreover from inst d
  have "displayed (fst (lookupAndPrintStats sampleLookup samplePrev 0 2000000000)) ''TC_ACT_OK''
      = Some (14, real (unat (14 - prevOf samplePrev ''TC_ACT_OK'')) / Seconds (Sub 2000000000 0))"
    by blast
  then have "displayed (fst (lookupAndPrintStats sampleLookup samplePrev 0 2000000000)) ''TC_ACT_OK''
      = Some (14, 2)"
    by (simp add: e f)
  moreover from inst
  have "pollLoop [] [Tick 2000000000 sampleLookup, Done] samplePrev 0 =
      (ClearScreen # fst (lookupAndPrintStats sampleLookup samplePrev 0 2000000000)
         @ fst (pollLoop [] [Done]
                  (fst (snd (lookupAndPrintStats sampleLookup samplePrev 0 2000000000))) 2000000000),
       snd (pollLoop [] [Done]
              (fst (snd (lookupAndPrintStats sampleLookup samplePrev 0 2000000000))) 2000000000))"
    by blast
  then have "snd (pollLoop [] [Tick 2000000000 sampleLookup, Done] samplePrev 0) = Exited 0"
    by simp
  ultimately show ?thesis by blast
qed

text \<open>
  The claim as stated fails: the first sample tick displays redirect with count 5 and
  rate 5, and the second, whose redirect lookup fails, displays no entry for redirect
  instead of that one.
\<close>

theorem failed_key_entry_not_kept:
  "displayed (fst firstTick) ''TC_ACT_REDIRECT'' = Some (5, 5)
   \<and> displayed (fst secondTick) ''TC_ACT_REDIRECT'' = None"
  by (simp add: displayed_def firstTick_def secondTick_def earlierLookup_def sampleLookup_def
      tick_eval)

text \<open>
  Claim C4, as the code has it. When the elapsed time is exactly zero, that is when
  the clock reads what it read at the last sample, the call prints the header and
  returns: the stored counts and the stored timestamp are unchanged, no rate is computed
  and no line is printed, so the snapshot of that tick has no entries.
\<close>

theorem zero_elapsed_prints_header_only:
  assumes "Seconds (Sub now prevTime) = 0"
  shows "now = prevTime
       \<and> lookupAndPrintStats lookup prevValues prevTime now = ([PrintHeader], prevValues, prevTime)
       \<and> snapshot (fst (lookupAndPrintStats lookup prevValues prevTime now)) = []"
proof -
  have "now = prevTime"
    using assms by (simp add: Seconds_eq_0 Sub_eq_0)
  moreover have "lookupAndPrintStats lookup prevValues prevTime now
      = ([PrintHeader], prevValues, prevTime)"
    using assms by (rule tick_zero)
  ultimately show ?thesis by simp
qed

theorem zero_elapsed_prints_header_only_witness:
  "lookupAndPrintStats sampleLookup samplePrev 7 7 = ([PrintHeader], samplePrev, 7)"
proof -
  have "Seconds (Sub 7 7) = 0"
    by (simp add: Seconds_def Sub_def maxDuration_def minDuration_def)
  from zero_elapsed_prints_header_only [OF this] show ?thesis by blast
qed

text \<open>
  The claim as stated fails: the first sample tick emits nine entries, and the tick that
  follows it with no time elapsed emits none.
\<close>

theorem zero_elapsed_snapshot_differs:
  "snapshot (fst firstTick) =
     [(''TC_ACT_OK'', 10, 10), (''TC_ACT_RECLASSIFY'', 0, 0), (''TC_ACT_SHOT'', 0, 0),
      (''TC_ACT_PIPE'', 0, 0), (''TC_ACT_STOLEN'', 0, 0), (''TC_ACT_QUEUED'', 0, 0),
      (''TC_ACT_REPEAT'', 0, 0), (''TC_ACT_REDIRECT'', 5, 5), (''TC_ACT_TRAP'', 0, 0)]
   \<and> snapshot (fst zeroTick) = []"
  by (simp add: zeroTick_def firstTick_def earlierLookup_def sampleLookup_def tick_eval)

text \<open>
  Claim C5, as the code has it. On a call with non-zero elapsed time the count stored
  for an action becomes the count read when the action is in \<^verbatim>\<open>tcKeyOrder\<close> and its
  lookup succeeds, and is unchanged otherwise. There is one stored timestamp for all
  actions, and it becomes the current clock reading whatever lookups failed.
\<close>

theorem stored_state_after_tick:
  assumes "Seconds (Sub now prevTime) \<noteq> 0"
  shows "fst (snd (lookupAndPrintStats lookup prevValues prevTime now)) action =
           (if action \<in> set tcKeyOrder then
              (case lookup (keyOf tcKeys action) of
                 Inl err \<Rightarrow> prevValues action
               | Inr v \<Rightarrow> Some v)
            else prevValues action)
       \<and> snd (snd (lookupAndPrintStats lookup prevValues prevTime now)) = now"
  using assms by (simp add: tick_prev) (simp add: tick_nonzero)

theorem stored_state_after_tick_witness:
  "fst (snd (lookupAndPrintStats sampleLookup samplePrev 0 2000000000)) ''TC_ACT_REDIRECT'' = Some 5
   \<and> fst (snd (lookupAndPrintStats sampleLookup samplePrev 0 2000000000)) ''TC_ACT_OK'' = Some 14
   \<and> snd (snd (lookupAndPrintStats sampleLookup samplePrev 0 2000000000)) = 2000000000"
proof -
  have b: "Seconds (Sub 2000000000 0) \<noteq> 0"
    by (simp add: Seconds_def Sub_def maxDuration_def minDuration_def)
  have c: "''TC_ACT_REDIRECT'' \<in> set tcKeyOrder"
    "sampleLookup (keyOf tcKeys ''TC_ACT_REDIRECT'') = Inl ''key does not exist''"
    "samplePrev ''TC_ACT_REDIRECT'' = Some 5"
    by (simp_all add: tcKeyOrder_def sampleLookup_def keyOf_def tcKeys_def tcKeys_entries_def
        samplePrev_def)
  have d: "''TC_ACT_OK'' \<in> set tcKeyOrder" "sampleLookup (keyOf tcKeys ''TC_ACT_OK'') = Inr 14"
    by (simp_all add: tcKeyOrder_def sampleLookup_def keyOf_def tcKeys_def tcKeys_entries_def)
  from stored_state_after_tick [where lookup = sampleLookup and prevValues = samplePrev
         and action = "''TC_ACT_REDIRECT''", OF b]
       stored_state_after_tick [where lookup = sampleLookup and prevValues = samplePrev
         and action = "''TC_ACT_OK''", OF b]
  show ?thesis
    by (simp add: c d)
qed

text \<open>
  The claim as stated fails: on the second sample tick the redirect lookup fails, and
  the stored timestamp still moves from the first tick's clock reading to the second's.
\<close>

theorem timestamp_advances_despite_failure:
  "sampleLookup (keyOf tcKeys ''TC_ACT_REDIRECT'') = Inl ''key does not exist''
   \<and> snd (snd firstTick) = 1000000000
   \<and> snd (snd secondTick) = 3000000000"
  by (simp add: firstTick_def secondTick_def earlierLookup_def sampleLookup_def tick_eval)

text \<open>
  Claim C8, as the code has it. \<^verbatim>\<open>tcKeyOrder\<close> lists nine actions whose keys in
  \<^verbatim>\<open>tcKeys\<close> are 0 to 8, in the order of the map literal. The snapshot of a call lists, in
  that order, exactly the actions whose lookup succeeded: none of them when the elapsed
  time is zero, all nine when it is not and every lookup succeeds. The key table enters
  only as a map: built from its entries in any other order it gives the same result.
\<close>

theorem snapshot_follows_tcKeyOrder:
  "length tcKeyOrder = 9
   \<and> map (keyOf tcKeys) tcKeyOrder = [0, 1, 2, 3, 4, 5, 6, 7, 8]
   \<and> map (\<lambda>action. (action, keyOf tcKeys action)) tcKeyOrder = tcKeys_entries
   \<and> map fst (snapshot (fst (lookupAndPrintStats lookup prevValues prevTime now))) =
        (if Seconds (Sub now prevTime) = 0 then []
         else filter (\<lambda>action. \<not> isl (lookup (keyOf tcKeys action))) tcKeyOrder)
   \<and> (Seconds (Sub now prevTime) \<noteq> 0
        \<and> (\<forall>action\<in>set tcKeyOrder. \<not> isl (lookup (keyOf tcKeys action))) \<longrightarrow>
          map fst (snapshot (fst (lookupAndPrintStats lookup prevValues prevTime now)))
            = tcKeyOrder)
   \<and> (mset entries = mset tcKeys_entries \<longrightarrow>
          lookupAndPrintStatsWith (map_of entries) lookup prevValues prevTime now
            = lookupAndPrintStats lookup prevValues prevTime now)"
proof (intro conjI impI)
  show "length tcKeyOrder = 9"
    by (simp add: tcKeyOrder_def)
  show "map (keyOf tcKeys) tcKeyOrder = [0, 1, 2, 3, 4, 5, 6, 7, 8]"
    by (rule keys_tcKeyOrder)
  show "map (\<lambda>action. (action, keyOf tcKeys action)) tcKeyOrder = tcKeys_entries"
    by (simp add: tcKeyOrder_def tcKeys_def tcKeys_entries_def keyOf_def)
  show "map fst (snapshot (fst (lookupAndPrintStats lookup prevValues prevTime now))) =
        (if Seconds (Sub now prevTime) = 0 then []
         else filter (\<lambda>action. \<not> isl (lookup (keyOf tcKeys action))) tcKeyOrder)"
    by (rule tick_names)
next
  assume "Seconds (Sub now prevTime) \<noteq> 0
        \<and> (\<forall>action\<in>set tcKeyOrder. \<not> isl (lookup (keyOf tcKeys action)))"
  then show "map fst (snapshot (fst (lookupAndPrintStats lookup prevValues prevTime now)))
            = tcKeyOrder"
    by (simp add: tick_names)
next
  assume "mset entries = mset tcKeys_entries"
  with distinct_tcKeys_entries have "map_of entries = tcKeys"
    unfolding tcKeys_def by (rule map_of_reordered)
  then show "lookupAndPrintStatsWith (map_of entries) lookup prevValues prevTime now
            = lookupAndPrintStats lookup prevValues prevTime now"
    by (simp add: lookupAndPrintStats_def)
qed

theorem snapshot_follows_tcKeyOrder_witness:
  "map fst (snapshot (fst (lookupAndPrintStats earlierLookup Map.empty 0 1000000000)))
     = tcKeyOrder
   \<and> lookupAndPrintStatsWith (map_of (rev tcKeys_entries)) earlierLookup Map.empty 0 1000000000
     = lookupAndPrintStats earlierLookup Map.empty 0 1000000000"
proof -
  have a: "Seconds (Sub 1000000000 0) \<noteq> 0
        \<and> (\<forall>action\<in>set tcKeyOrder. \<not> isl (earlierLookup (keyOf tcKeys action)))"
    by (simp add: Seconds_def Sub_def maxDuration_def minDuration_def earlierLookup_def)
  have b: "mset (rev tcKeys_entries) = mset tcKeys_entries"
    by simp
  from snapshot_follows_tcKeyOrder
         [where lookup = earlierLookup and prevValues = Map.empty and prevTime = 0
            and now = 1000000000 and entries = "rev tcKeys_entries"]
       a b
  show ?thesis by blast
qed

text \<open>
  The claim as stated fails: the second sample tick, whose redirect lookup fails, emits
  eight entries, and the tick with no time elapsed emits none.
\<close>

theorem snapshot_not_always_nine:
  "map fst (snapshot (fst secondTick)) =
     [''TC_ACT_OK'', ''TC_ACT_RECLASSIFY'', ''TC_ACT_SHOT'', ''TC_ACT_PIPE'', ''TC_ACT_STOLEN'',
      ''TC_ACT_QUEUED'', ''TC_ACT_REPEAT'', ''TC_ACT_TRAP'']
   \<and> length (snapshot (fst secondTick)) = 8
   \<and> length (snapshot (fst zeroTick)) = 0"
  by (simp add: firstTick_def secondTick_def zeroTick_def earlierLookup_def sampleLookup_def
      tick_eval)

subsection \<open>Runs of \<^verbatim>\<open>main\<close>\<close>









text \<open>
  Claim C7. When the target program can be opened and its info read, and its type is
  neither \<^verbatim>\<open>SchedCLS\<close> nor \<^verbatim>\<open>SchedACT\<close>: \<^verbatim>\<open>getFuncName\<close> fails with the
  not-a-TC-program error, the run of \<^verbatim>\<open>main\<close> contains neither \<^verbatim>\<open>LoadAndAssign\<close> nor
  \<^verbatim>\<open>AttachTracing\<close>, and the process exits with status 1. When the steps before the
  resolution succeed, the fatal message with that error is the only event of the run.
\<close>

theorem main_rejects_non_tc_program:
  assumes "programResult env = Inr prog"
    and "Info prog = Inr info"
    and "Type info \<noteq> SchedCLS"
    and "Type info \<noteq> SchedACT"
  shows "getFuncName prog = Inl NotATCProgram
       \<and> snd (main env) = Exited 1
       \<and> (\<forall>n. LoadAndAssign n \<notin> set (fst (main env)))
       \<and> AttachTracing \<notin> set (fst (main env))
       \<and> (tcProgID env \<noteq> 0 \<and> memlockResult env = None \<and> specResult env = None \<longrightarrow>
            main env = ([LogFatal (GetFuncNameFailed NotATCProgram)], Exited 1))"
proof -
  have err: "getFuncName prog = Inl NotATCProgram"
    using assms(2-4) by (rule getFuncName_not_tc)
  then show ?thesis
    using assms(1) by (auto simp: main_def logFatal_def split: option.splits)
qed

theorem main_rejects_non_tc_program_witness:
  "main filterEnv = ([LogFatal (GetFuncNameFailed NotATCProgram)], Exited 1)"
proof -
  let ?info = "\<lparr>Type = 1, BTFID = None, Instructions = Inr []\<rparr>"
  have a: "programResult filterEnv = Inr sampleFilter"
    by (simp add: filterEnv_def sampleEnv_def)
  have b: "Info sampleFilter = Inr ?info"
    by (simp add: sampleFilter_def)
  have c: "Type ?info \<noteq> SchedCLS" "Type ?info \<noteq> SchedACT"
    by (simp_all add: SchedCLS_def SchedACT_def)
  have d: "tcProgID filterEnv \<noteq> 0 \<and> memlockResult filterEnv = None \<and> specResult filterEnv = None"
    by (simp add: filterEnv_def sampleEnv_def)
  from main_rejects_non_tc_program [OF a b c] d show ?thesis by blast
qed

end
